theory Spec2Isabelle
  imports Complex_Main "HOL-Library.Word"
begin

section \<open>Credential rotation: \<^verbatim>\<open>SpeechmaticsASRConfig\<close> (config.py)\<close>

text \<open>
  The fields of the configuration object that the rotation, the audio gain and the
  transcript handlers read. Python integers are unbounded, so indices are \<open>int\<close>;
  \<open>attempted_key_indices\<close> is a Python list, kept as a list. \<open>audio_gain\<close> is a Python
  float; it is read as the real number that the (finite) float denotes.
\<close>

record asr_config =
  api_keys :: "string list"
  key :: string
  current_key_index :: int
  attempted_key_indices :: "int list"
  language :: string
  enable_word_final_mode :: bool
  audio_gain :: real

text \<open>
  The only exception \<^verbatim>\<open>get_next_key\<close> raises: the \<^verbatim>\<open>ValueError\<close> whose message says
  that every API key has been tried.
\<close>

datatype key_error = AllKeysAttempted

definition get_current_key :: "asr_config \<Rightarrow> string \<times> asr_config" where
  "get_current_key c =
     (if api_keys c \<noteq> [] \<and> length (api_keys c) > 0 then
        (if 0 \<le> current_key_index c \<and> current_key_index c < int (length (api_keys c))
         then (api_keys c ! nat (current_key_index c), c)
         else (api_keys c ! 0, c\<lparr>current_key_index := 0\<rparr>))
      else (key c, c))"

text \<open>
  The loop \<^verbatim>\<open>for i in range(len(self.api_keys))\<close> of \<^verbatim>\<open>get_next_key\<close>: the first
  \<open>next_index = (current_key_index + 1 + i) % len(api_keys)\<close> that is not in the attempted
  list. Python's \<open>%\<close> with a positive modulus is HOL's \<open>mod\<close> on \<open>int\<close>.
\<close>

fun find_unattempted :: "asr_config \<Rightarrow> nat list \<Rightarrow> int option" where
  "find_unattempted c [] = None"
| "find_unattempted c (i # is) =
     (let next_index = (current_key_index c + 1 + int i) mod int (length (api_keys c))
      in if next_index \<notin> set (attempted_key_indices c) then Some next_index
         else find_unattempted c is)"

definition mark_attempted :: "asr_config \<Rightarrow> asr_config" where
  "mark_attempted c =
     (if current_key_index c \<notin> set (attempted_key_indices c)
      then c\<lparr>attempted_key_indices := attempted_key_indices c @ [current_key_index c]\<rparr>
      else c)"

text \<open>
  \<^verbatim>\<open>get_next_key\<close> returns the key or raises, and in both cases leaves the configuration
  mutated (the current index has been marked as attempted before the search).
\<close>

definition get_next_key :: "asr_config \<Rightarrow> (key_error + string) \<times> asr_config" where
  "get_next_key c =
     (if api_keys c \<noteq> [] \<and> length (api_keys c) > 1 then
        (let c1 = mark_attempted c
         in case find_unattempted c1 [0 ..< length (api_keys c1)] of
              Some next_index \<Rightarrow>
                (Inr (api_keys c1 ! nat next_index), c1\<lparr>current_key_index := next_index\<rparr>)
            | None \<Rightarrow> (Inl AllKeysAttempted, c1))
      else (case get_current_key c of (k, c') \<Rightarrow> (Inr k, c')))"

definition has_multiple_keys :: "asr_config \<Rightarrow> bool" where
  "has_multiple_keys c = (length (api_keys c) > 1)"

definition has_unattempted_keys :: "asr_config \<Rightarrow> bool" where
  "has_unattempted_keys c =
     (if api_keys c = [] \<or> length (api_keys c) \<le> 1 then False
      else length (attempted_key_indices c) < length (api_keys c))"

definition reset_key_rotation :: "asr_config \<Rightarrow> asr_config" where
  "reset_key_rotation c = c\<lparr>current_key_index := 0, attempted_key_indices := []\<rparr>"

text \<open>
  A sequence of \<open>n\<close> calls of \<^verbatim>\<open>get_next_key\<close> with no \<^verbatim>\<open>reset_key_rotation\<close> in
  between: the results in call order, and the configuration after the last call.
\<close>

fun rotations :: "nat \<Rightarrow> asr_config \<Rightarrow> (key_error + string) list \<times> asr_config" where
  "rotations 0 c = ([], c)"
| "rotations (Suc n) c =
     (case get_next_key c of (r, c1) \<Rightarrow>
        (case rotations n c1 of (rs, c2) \<Rightarrow> (r # rs, c2)))"

definition succeeded :: "(key_error + string) \<Rightarrow> bool" where
  "succeeded r = (case r of Inl _ \<Rightarrow> False | Inr _ \<Rightarrow> True)"

text \<open>The indices of configured keys that are neither attempted nor current.\<close>

definition fresh_indices :: "asr_config \<Rightarrow> int set" where
  "fresh_indices c =
     {0 ..< int (length (api_keys c))} - set (attempted_key_indices c) - {current_key_index c}"

section \<open>Audio conditioning: \<^verbatim>\<open>recv_audio_frame\<close> (asr_client.py)\<close>

type_synonym byte = "8 word"

datatype py_exn = StructError | AttributeError

datatype error_code = FATAL_ERROR | NON_FATAL_ERROR

text \<open>
  \<^verbatim>\<open>int(x)\<close> on a Python float truncates towards zero.
\<close>

definition py_int :: "real \<Rightarrow> int" where
  "py_int x = (if 0 \<le> x then \<lfloor>x\<rfloor> else \<lceil>x\<rceil>)"

text \<open>
  The body of the loop over the samples:
  \<^verbatim>\<open>amplified = int(sample * gain_factor); amplified = max(-32768, min(32767, amplified))\<close>.
  The product is a product of Python floats (IEEE doubles), which may round. It is the
  parameter \<open>fmul\<close>: \<open>fmul sample gain\<close> is the real number denoted by the float
  \<^verbatim>\<open>sample * gain_factor\<close>. Where the exact product is itself a double, as for a small
  sample and a gain such as \<open>1/4\<close>, it is the exact product \<open>exact_mul\<close>.
\<close>

definition exact_mul :: "int \<Rightarrow> real \<Rightarrow> real" where
  "exact_mul sample gain = real_of_int sample * gain"

definition amplify_sample :: "(int \<Rightarrow> real \<Rightarrow> real) \<Rightarrow> real \<Rightarrow> int \<Rightarrow> int" where
  "amplify_sample fmul gain_factor sample =
     max (- 32768) (min 32767 (py_int (fmul sample gain_factor)))"

text \<open>
  \<^verbatim>\<open>struct.unpack('<Nh', buf)\<close> and \<^verbatim>\<open>struct.pack('<Nh', *samples)\<close>: \<open>N\<close> little-endian
  signed 16-bit integers, the two's complement written out on the value of the two bytes.
  Unpacking raises \<^verbatim>\<open>struct.error\<close> unless the buffer has exactly \<open>2 * N\<close> bytes;
  packing raises it for a value outside the 16-bit range.
\<close>

definition unpack_h :: "byte \<Rightarrow> byte \<Rightarrow> int" where
  "unpack_h lo hi =
     (let u = uint lo + 256 * uint hi in if 32768 \<le> u then u - 65536 else u)"

fun unpack_le16 :: "byte list \<Rightarrow> int list" where
  "unpack_le16 (lo # hi # bs) = unpack_h lo hi # unpack_le16 bs"
| "unpack_le16 bs = []"

definition struct_unpack :: "nat \<Rightarrow> byte list \<Rightarrow> py_exn + int list" where
  "struct_unpack n buf = (if length buf = 2 * n then Inr (unpack_le16 buf) else Inl StructError)"

definition pack_h :: "int \<Rightarrow> byte list" where
  "pack_h a = [word_of_int a, word_of_int (a div 256)]"

definition struct_pack :: "int list \<Rightarrow> py_exn + byte list" where
  "struct_pack samples =
     (if list_all (\<lambda>a. - 32768 \<le> a \<and> a \<le> 32767) samples
      then Inr (concat (map pack_h samples)) else Inl StructError)"

text \<open>
  What the client does to the outside: the items it puts on \<^verbatim>\<open>audio_queue\<close> (an
  \<^verbatim>\<open>asyncio.Queue()\<close> with no size limit), the lines it logs (the source's messages are
  Chinese text; each is named here by what it reports) and the tasks it creates for the
  callbacks \<^verbatim>\<open>on_asr_result\<close> and \<^verbatim>\<open>on_asr_error\<close>.
\<close>

datatype queue_item = AudioBytes "byte list" | FLUSH | CLOSE

datatype log_entry =
    WarnEmptyFrame
  | WarnNoSamples nat
  | DebugAudioStats int
  | ErrorSendAudioFrame py_exn
  | ErrorTraceback
  | ErrorHandleTranscript py_exn
  | WarnFrameDropped int
  | InfoFrameSent int nat
  | ErrorNoSpareKey
  | ErrorAllKeysAttempted
  | WarnQuotaDetected
  | InfoKeySwitched int int
  | InfoStopping
  | InfoStopped
  | ErrorKeyMissing
  | ErrorStartFailed py_exn
  | ErrorVendor string

record module_error =
  code :: error_code
  cause :: py_exn

section \<open>The client and the transcripts it handles (asr_client.py)\<close>

subsection \<open>Provider messages\<close>

text \<open>
  An \<^verbatim>\<open>AddTranscript\<close> or \<^verbatim>\<open>AddPartialTranscript\<close> message is a dictionary. The records
  hold the keys the handlers read, each absent key replaced by the default the handler
  gives to \<^verbatim>\<open>.get\<close>: \<open>""\<close> for strings, \<open>0\<close> for times, \<open>[]\<close> for lists, and
  \<open>is_eos\<close> is whether \<^verbatim>\<open>result.get("is_eos") == True\<close>. Times are floats in seconds, read
  as reals. A message, or an entry of its \<open>results\<close>, that is not a dictionary is
  \<open>NotAMapping\<close>, \<open>NotADict\<close>: calling \<^verbatim>\<open>.get\<close> on it raises \<^verbatim>\<open>AttributeError\<close>.
\<close>

record alternative =
  content :: string
  alt_speaker :: string

record sm_result =
  alternatives :: "alternative list"
  start_time :: real
  end_time :: real
  result_type :: string
  result_channel :: string
  is_eos :: bool

datatype result_item = Dict sm_result | NotADict

record sm_metadata =
  transcript :: string
  md_start_time :: real
  md_end_time :: real

record sm_message =
  msg_metadata :: sm_metadata
  results :: "result_item list"

datatype provider_message = Msg sm_message | NotAMapping

subsection \<open>Words, results and the client's state\<close>

text \<open>
  \<^verbatim>\<open>SpeechmaticsASRWord\<close> with the fields the handler fills, \<^verbatim>\<open>ASRResult\<close> with the
  fields the handlers fill (\<open>asr_text\<close> is its \<^verbatim>\<open>text\<close>), and the dictionaries that
  \<^verbatim>\<open>get_words\<close> builds. The metadata dictionary keeps its insertion order.
\<close>

record asr_word =
  word :: string
  word_start_ms :: int
  word_duration_ms :: int
  is_punctuation :: bool
  speaker :: string
  channel :: string

record word_payload =
  payload_word :: string
  payload_start_ms :: int
  payload_duration_ms :: int
  stable :: bool

record asr_result =
  asr_text :: string
  final :: bool
  start_ms :: int
  duration_ms :: int
  result_language :: string
  words :: "word_payload list"
  metadata :: "(string \<times> string) list"

datatype client_task = OnAsrResult asr_result | EmitError module_error | OnAsrOpen | OnAsrClose

text \<open>
  Modelled from the spec: the state of \<^verbatim>\<open>AudioTimeline\<close> (\<^verbatim>\<open>ten_ai_base.timeline\<close>), which
  is not among the sources. The spec (3, 4.2) gives the timeline a cursor for the time since
  the last reset: the running count, in milliseconds, of the audio submitted since then.
\<close>

record audio_timeline =
  total_user_audio_duration :: int

text \<open>
  Modelled from the spec: \<^verbatim>\<open>AudioTimeline.get_total_user_audio_duration\<close>, the spec's
  \<open>totalAudioDuration\<close>, the running count of audio submitted since the last reset.
\<close>

definition get_total_user_audio_duration :: "audio_timeline \<Rightarrow> int" where
  "get_total_user_audio_duration tline = total_user_audio_duration tline"

text \<open>
  Modelled from the spec: \<^verbatim>\<open>AudioTimeline.reset\<close>, which zeroes the cursor. The spec's
  reset also folds the cursor into the base offset; in the source the base offset is the
  client's \<^verbatim>\<open>sent_user_audio_duration_ms_before_last_reset\<close> and the caller,
  \<^verbatim>\<open>_handle_recognition_started\<close>, folds the cursor into it before it calls \<^verbatim>\<open>reset\<close>.
\<close>

definition timeline_reset :: "audio_timeline \<Rightarrow> audio_timeline" where
  "timeline_reset tline = tline\<lparr>total_user_audio_duration := 0\<rparr>"


text \<open>
  Modelled from the spec: \<^verbatim>\<open>AudioTimeline.get_audio_duration_before_time\<close>, the spec's
  \<open>durationBeforeProviderTime\<close>, which maps a provider-relative time to absolute time by
  adding the base offset. The caller adds the base offset itself (see \<open>actual_start_ms\<close>
  below), so the function returns the provider-relative time; the spec bounds it by nothing.
\<close>

definition get_audio_duration_before_time :: "audio_timeline \<Rightarrow> real \<Rightarrow> real" where
  "get_audio_duration_before_time tline time_ms = time_ms"

text \<open>
  The client. \<open>sdk_client\<close> is whether \<^verbatim>\<open>self.client\<close> (the SDK's websocket client) is not
  \<^verbatim>\<open>None\<close>, \<open>session_running\<close> the value of
  \<^verbatim>\<open>getattr(self.client, "session_running", False)\<close>. The extension registers the four
  callbacks before it starts the client, so the guards \<^verbatim>\<open>if self.on_asr_result\<close> and
  \<^verbatim>\<open>if self.on_asr_open\<close> are taken; \<open>tasks\<close> are the tasks created for them, in order.
\<close>

record asr_client =
  audio_queue :: "queue_item list"
  timeline :: audio_timeline
  sent_user_audio_duration_ms_before_last_reset :: int
  session_id :: "string option"
  connected :: bool
  websocket_connected :: bool
  client_needs_stopping :: bool
  sdk_client :: bool
  session_running :: bool
  cache_words :: "asr_word list"
  audio_send_count :: int
  client_log :: "log_entry list"
  tasks :: "client_task list"

definition new_client :: "audio_timeline \<Rightarrow> asr_client" where
  "new_client tline =
     \<lparr>audio_queue = [], timeline = tline, sent_user_audio_duration_ms_before_last_reset = 0,
      session_id = None, connected = False, websocket_connected = False,
      client_needs_stopping = False, sdk_client = False, session_running = False,
      cache_words = [], audio_send_count = 0, client_log = [], tasks = []\<rparr>"

definition log_line :: "log_entry \<Rightarrow> asr_client \<Rightarrow> asr_client" where
  "log_line l cl = cl\<lparr>client_log := client_log cl @ [l]\<rparr>"

definition create_task :: "client_task \<Rightarrow> asr_client \<Rightarrow> asr_client" where
  "create_task t cl = cl\<lparr>tasks := tasks cl @ [t]\<rparr>"

definition is_connected :: "asr_client \<Rightarrow> bool" where
  "is_connected cl =
     (if \<not> sdk_client cl then False
      else if client_needs_stopping cl then False
      else if \<not> connected cl \<and> \<not> websocket_connected cl then False
      else session_running cl)"

subsection \<open>\<^verbatim>\<open>recv_audio_frame\<close>\<close>

text \<open>
  The \<^verbatim>\<open>except Exception\<close> handler of \<^verbatim>\<open>recv_audio_frame\<close>: the error is logged and a task
  is created that reports it with code \<^verbatim>\<open>FATAL_ERROR\<close>.
\<close>

definition audio_frame_failed :: "py_exn \<Rightarrow> asr_client \<Rightarrow> asr_client" where
  "audio_frame_failed e cl =
     create_task (EmitError \<lparr>code = FATAL_ERROR, cause = e\<rparr>)
       (log_line ErrorTraceback (log_line (ErrorSendAudioFrame e) cl))"

definition count_frame :: "asr_client \<Rightarrow> asr_client" where
  "count_frame cl =
     (if connected cl then
        (let cl1 = cl\<lparr>audio_send_count := audio_send_count cl + 1\<rparr>
         in if audio_send_count cl1 mod 100 = 1
            then log_line (DebugAudioStats (audio_send_count cl1)) cl1 else cl1)
      else cl)"

definition recv_audio_frame ::
    "(int \<Rightarrow> real \<Rightarrow> real) \<Rightarrow> asr_config \<Rightarrow> asr_client \<Rightarrow> byte list \<Rightarrow> string option \<Rightarrow> asr_client" where
  "recv_audio_frame fmul cfg cl frame_buf sid =
     (if frame_buf = [] then log_line WarnEmptyFrame cl
      else
        (let cl1 = cl\<lparr>session_id := sid\<rparr>;
             gain_factor = audio_gain cfg;
             num_samples = length frame_buf div 2
         in if num_samples > 0 then
              (case struct_unpack num_samples frame_buf of
                 Inl e \<Rightarrow> audio_frame_failed e cl1
               | Inr samples \<Rightarrow>
                   (let amplified_samples = map (amplify_sample fmul gain_factor) samples;
                        cl2 = count_frame cl1
                    in case struct_pack amplified_samples of
                         Inl e \<Rightarrow> audio_frame_failed e cl2
                       | Inr buf \<Rightarrow> cl2\<lparr>audio_queue := audio_queue cl2 @ [AudioBytes buf]\<rparr>))
            else
              (let cl2 = log_line (WarnNoSamples (length frame_buf)) cl1
               in cl2\<lparr>audio_queue := audio_queue cl2 @ [AudioBytes frame_buf]\<rparr>)))"

subsection \<open>Starting and stopping the client\<close>

text \<open>
  What \<^verbatim>\<open>start\<close> and \<^verbatim>\<open>stop\<close> do to the fields that \<^verbatim>\<open>is_connected\<close> reads. \<^verbatim>\<open>start\<close>
  makes a new SDK client, which has not run yet, clears \<^verbatim>\<open>client_needs_stopping\<close> and
  creates the task \<^verbatim>\<open>_client_run\<close>, which marks the websocket as not connected before it
  connects. \<^verbatim>\<open>stop\<close> resets the connection flags, drops the SDK client and puts
  \<^verbatim>\<open>FLUSH\<close> and \<^verbatim>\<open>CLOSE\<close> on the audio queue.
\<close>

definition client_start :: "asr_client \<Rightarrow> asr_client" where
  "client_start cl =
     cl\<lparr>sdk_client := True, session_running := False, client_needs_stopping := False,
        websocket_connected := False\<rparr>"

definition client_stop :: "asr_client \<Rightarrow> asr_client" where
  "client_stop cl =
     (let cl1 = cl\<lparr>client_needs_stopping := True, websocket_connected := False,
                   connected := False\<rparr>;
          cl2 = cl1\<lparr>sdk_client := False, session_running := False\<rparr>
      in cl2\<lparr>audio_queue := audio_queue cl2 @ [FLUSH, CLOSE]\<rparr>)"

subsection \<open>Recognition started\<close>

text \<open>
  \<^verbatim>\<open>_handle_recognition_started\<close> folds the audio sent on the connection that ended into
  \<^verbatim>\<open>sent_user_audio_duration_ms_before_last_reset\<close> and resets the timeline;
  \<^verbatim>\<open>_handle_end_transcript\<close> clears the connection flags. The absolute
  start of a provider time is \<^verbatim>\<open>int(timeline.get_audio_duration_before_time(start_ms) +
  sent_user_audio_duration_ms_before_last_reset)\<close>, computed alike by the three transcript
  handlers.
\<close>

definition handle_recognition_started :: "asr_client \<Rightarrow> asr_client" where
  "handle_recognition_started cl =
     create_task OnAsrOpen
       (cl\<lparr>websocket_connected := True,
           sent_user_audio_duration_ms_before_last_reset :=
             sent_user_audio_duration_ms_before_last_reset cl
               + get_total_user_audio_duration (timeline cl),
           timeline := timeline_reset (timeline cl),
           connected := True\<rparr>)"

definition handle_end_transcript :: "asr_client \<Rightarrow> asr_client" where
  "handle_end_transcript cl =
     create_task OnAsrClose (cl\<lparr>websocket_connected := False, connected := False\<rparr>)"

definition actual_start_ms :: "asr_client \<Rightarrow> real \<Rightarrow> int" where
  "actual_start_ms cl start =
     py_int (get_audio_duration_before_time (timeline cl) start
             + real_of_int (sent_user_audio_duration_ms_before_last_reset cl))"

subsection \<open>Partial transcripts and word-final mode\<close>

definition py_isspace :: "char \<Rightarrow> bool" where
  "py_isspace ch = (let n = (of_char ch :: nat) in (9 \<le> n \<and> n \<le> 13) \<or> (28 \<le> n \<and> n \<le> 32))"

definition strip :: "string \<Rightarrow> string" where
  "strip s = rev (dropWhile py_isspace (rev (dropWhile py_isspace s)))"

text \<open>
  The speaker of a partial or word-final result: that of the first alternative of the first
  entry of \<open>results\<close>, stripped, and \<open>"NONE"\<close> when there is none, when it is blank or when
  the entry is no dictionary.
\<close>

definition extract_speaker :: "result_item list \<Rightarrow> string" where
  "extract_speaker rs =
     (case rs of
        [] \<Rightarrow> ''NONE''
      | NotADict # _ \<Rightarrow> ''NONE''
      | Dict r # _ \<Rightarrow>
          (case alternatives r of
             [] \<Rightarrow> ''NONE''
           | a # _ \<Rightarrow>
               if alt_speaker a \<noteq> [] \<and> strip (alt_speaker a) \<noteq> []
               then strip (alt_speaker a) else ''NONE''))"

definition transcript_result :: "asr_config \<Rightarrow> asr_client \<Rightarrow> sm_message \<Rightarrow> bool \<Rightarrow> asr_result" where
  "transcript_result cfg cl msg is_final =
     (let md = msg_metadata msg;
          start = md_start_time md * 1000;
          finish = md_end_time md * 1000
      in \<lparr>asr_text = transcript md, final = is_final,
          start_ms = actual_start_ms cl start, duration_ms = py_int (finish - start),
          result_language = language cfg, words = [],
          metadata = [(''speaker'', extract_speaker (results msg))]\<rparr>)"

text \<open>
  The \<^verbatim>\<open>except Exception\<close> handlers of the transcript handlers: the failure is logged (with
  its traceback by the partial and word-final handlers, without by the sentence-final one)
  and a task is created that reports it with code \<^verbatim>\<open>FATAL_ERROR\<close>.
\<close>

definition transcript_failed :: "py_exn \<Rightarrow> asr_client \<Rightarrow> asr_client" where
  "transcript_failed e cl =
     create_task (EmitError \<lparr>code = FATAL_ERROR, cause = e\<rparr>)
       (log_line ErrorTraceback (log_line (ErrorHandleTranscript e) cl))"

definition sentence_failed :: "py_exn \<Rightarrow> asr_client \<Rightarrow> asr_client" where
  "sentence_failed e cl =
     create_task (EmitError \<lparr>code = FATAL_ERROR, cause = e\<rparr>)
       (log_line (ErrorHandleTranscript e) cl)"

definition handle_partial_transcript :: "asr_config \<Rightarrow> asr_client \<Rightarrow> provider_message \<Rightarrow> asr_client" where
  "handle_partial_transcript cfg cl m =
     (case m of
        NotAMapping \<Rightarrow> transcript_failed AttributeError cl
      | Msg msg \<Rightarrow>
          if transcript (msg_metadata msg) = [] then cl
          else create_task (OnAsrResult (transcript_result cfg cl msg False)) cl)"

definition handle_transcript_word_final_mode :: "asr_config \<Rightarrow> asr_client \<Rightarrow> provider_message \<Rightarrow> asr_client" where
  "handle_transcript_word_final_mode cfg cl m =
     (case m of
        NotAMapping \<Rightarrow> transcript_failed AttributeError cl
      | Msg msg \<Rightarrow>
          if transcript (msg_metadata msg) = [] then cl
          else create_task (OnAsrResult (transcript_result cfg cl msg True)) cl)"

subsection \<open>Sentence-final mode\<close>

text \<open>
  Modelled from the spec: the joining loop of \<^verbatim>\<open>convert_words_to_sentence\<close> (module
  \<^verbatim>\<open>word.py\<close>, not among the sources). The spec (4.3): punctuation tokens attach without a
  leading space, word tokens are space-joined.
\<close>

fun join_words :: "string \<Rightarrow> asr_word list \<Rightarrow> string" where
  "join_words acc [] = acc"
| "join_words acc (w # ws) =
     join_words (if is_punctuation w \<or> acc = [] then acc @ word w else acc @ '' '' @ word w) ws"

text \<open>
  Modelled from the spec: \<^verbatim>\<open>convert_words_to_sentence\<close> of \<^verbatim>\<open>word.py\<close>, which joins the
  buffer into the sentence text.
\<close>

definition convert_words_to_sentence :: "asr_word list \<Rightarrow> asr_config \<Rightarrow> string" where
  "convert_words_to_sentence ws cfg = join_words [] ws"

text \<open>
  Modelled from the spec: \<^verbatim>\<open>get_sentence_start_ms\<close> of \<^verbatim>\<open>word.py\<close>, the first token's
  absolute start; for an empty buffer, of which the spec says nothing, \<open>0\<close>.
\<close>

definition get_sentence_start_ms :: "asr_word list \<Rightarrow> int" where
  "get_sentence_start_ms ws = (case ws of [] \<Rightarrow> 0 | w # _ \<Rightarrow> word_start_ms w)"

text \<open>
  Modelled from the spec: \<^verbatim>\<open>get_sentence_duration_ms\<close> of \<^verbatim>\<open>word.py\<close>, the duration that
  spans the first to the last token; for an empty buffer, of which the spec says nothing,
  \<open>0\<close>.
\<close>

definition get_sentence_duration_ms :: "asr_word list \<Rightarrow> int" where
  "get_sentence_duration_ms ws =
     (case ws of
        [] \<Rightarrow> 0
      | w # _ \<Rightarrow> word_start_ms (last ws) + word_duration_ms (last ws) - word_start_ms w)"

definition get_words :: "asr_word list \<Rightarrow> word_payload list" where
  "get_words ws =
     map (\<lambda>w. \<lparr>payload_word = word w, payload_start_ms = word_start_ms w,
                payload_duration_ms = word_duration_ms w, stable = True\<rparr>) ws"

text \<open>
  The metadata dictionary of a sentence: \<^verbatim>\<open>d.get(k)\<close> is falsy for an absent key and for an
  empty string, and \<^verbatim>\<open>d[k] = v\<close> replaces the value of a key or adds the key at the end.
\<close>

definition dict_get :: "(string \<times> string) list \<Rightarrow> string \<Rightarrow> string" where
  "dict_get d k = (case map_of d k of None \<Rightarrow> [] | Some v \<Rightarrow> v)"

fun dict_set :: "string \<Rightarrow> string \<Rightarrow> (string \<times> string) list \<Rightarrow> (string \<times> string) list" where
  "dict_set k v [] = [(k, v)]"
| "dict_set k v (p # d) = (if fst p = k then (k, v) # d else p # dict_set k v d)"

fun sentence_metadata :: "(string \<times> string) list \<Rightarrow> asr_word list \<Rightarrow> (string \<times> string) list" where
  "sentence_metadata result_metadata [] = result_metadata"
| "sentence_metadata result_metadata (w # ws) =
     (let d1 = (if speaker w \<noteq> [] \<and> dict_get result_metadata ''speaker'' = []
                then dict_set ''speaker'' (speaker w) result_metadata else result_metadata);
          d2 = (if channel w \<noteq> [] \<and> dict_get d1 ''channel'' = []
                then dict_set ''channel'' (channel w) d1 else d1)
      in sentence_metadata d2 ws)"

definition sentence_result :: "asr_config \<Rightarrow> bool \<Rightarrow> asr_word list \<Rightarrow> asr_result" where
  "sentence_result cfg is_final ws =
     \<lparr>asr_text = convert_words_to_sentence ws cfg, final = is_final,
      start_ms = get_sentence_start_ms ws, duration_ms = get_sentence_duration_ms ws,
      result_language = language cfg, words = get_words ws,
      metadata = sentence_metadata [] ws\<rparr>"

text \<open>
  The body of the loop over \<open>results\<close>: the first alternative, when there is one with a
  non-empty content, becomes a word at the end of \<^verbatim>\<open>cache_words\<close>; then an entry flagged
  \<open>is_eos\<close> flushes the buffer as one final result.
\<close>

definition cache_token :: "asr_client \<Rightarrow> sm_result \<Rightarrow> asr_client" where
  "cache_token cl r =
     (case alternatives r of
        [] \<Rightarrow> cl
      | a # _ \<Rightarrow>
          if content a \<noteq> [] then
            (let start = start_time r * 1000;
                 finish = end_time r * 1000
             in cl\<lparr>cache_words := cache_words cl @
                    [\<lparr>word = content a, word_start_ms = actual_start_ms cl start,
                      word_duration_ms = py_int (finish - start),
                      is_punctuation = (result_type r = ''punctuation''),
                      speaker = alt_speaker a, channel = result_channel r\<rparr>]\<rparr>)
          else cl)"

definition flush_on_eos :: "asr_config \<Rightarrow> asr_client \<Rightarrow> sm_result \<Rightarrow> asr_client" where
  "flush_on_eos cfg cl r =
     (if is_eos r
      then (create_task (OnAsrResult (sentence_result cfg True (cache_words cl))) cl)\<lparr>cache_words := []\<rparr>
      else cl)"

text \<open>
  The loop stops at the first entry that is no dictionary, where \<^verbatim>\<open>result.get\<close> raises;
  what the entries before it did to the client stays done.
\<close>

fun handle_results :: "asr_config \<Rightarrow> asr_client \<Rightarrow> result_item list \<Rightarrow> py_exn option \<times> asr_client" where
  "handle_results cfg cl [] = (None, cl)"
| "handle_results cfg cl (NotADict # rs) = (Some AttributeError, cl)"
| "handle_results cfg cl (Dict r # rs) = handle_results cfg (flush_on_eos cfg (cache_token cl r) r) rs"

definition handle_transcript_sentence_final_mode :: "asr_config \<Rightarrow> asr_client \<Rightarrow> provider_message \<Rightarrow> asr_client" where
  "handle_transcript_sentence_final_mode cfg cl m =
     (case m of
        NotAMapping \<Rightarrow> sentence_failed AttributeError cl
      | Msg msg \<Rightarrow>
          (case handle_results cfg cl (results msg) of
             (Some e, cl1) \<Rightarrow> sentence_failed e cl1
           | (None, cl1) \<Rightarrow>
               if cache_words cl1 \<noteq> []
               then create_task (OnAsrResult (sentence_result cfg False (cache_words cl1))) cl1
               else cl1))"

subsection \<open>The handlers that \<^verbatim>\<open>start\<close> registers\<close>

text \<open>
  In word-final mode \<^verbatim>\<open>AddTranscript\<close> goes to the word-final handler and
  \<^verbatim>\<open>AddPartialTranscript\<close> to the partial handler; otherwise \<^verbatim>\<open>AddTranscript\<close> goes to the
  sentence-final handler and partial transcripts are ignored.
\<close>

datatype server_message =
    RecognitionStarted
  | EndOfTranscript
  | AddTranscript provider_message
  | AddPartialTranscript provider_message

definition dispatch :: "asr_config \<Rightarrow> asr_client \<Rightarrow> server_message \<Rightarrow> asr_client" where
  "dispatch cfg cl m =
     (case m of
        RecognitionStarted \<Rightarrow> handle_recognition_started cl
      | EndOfTranscript \<Rightarrow> handle_end_transcript cl
      | AddTranscript pm \<Rightarrow>
          if enable_word_final_mode cfg then handle_transcript_word_final_mode cfg cl pm
          else handle_transcript_sentence_final_mode cfg cl pm
      | AddPartialTranscript pm \<Rightarrow>
          if enable_word_final_mode cfg then handle_partial_transcript cfg cl pm else cl)"





section \<open>The extension (extension.py)\<close>

subsection \<open>Strings\<close>

text \<open>
  \<^verbatim>\<open>str.lower()\<close> and the substring test \<^verbatim>\<open>keyword in error_lower\<close>, on ASCII strings
  (as \<^verbatim>\<open>str.strip()\<close> above).
\<close>

definition lower_char :: "char \<Rightarrow> char" where
  "lower_char ch =
     (let n = (of_char ch :: nat) in if 65 \<le> n \<and> n \<le> 90 then char_of (n + 32) else ch)"

definition lower :: "string \<Rightarrow> string" where
  "lower s = map lower_char s"

fun contains :: "string \<Rightarrow> string \<Rightarrow> bool" where
  "contains kw [] = (kw = [])"
| "contains kw (ch # s) = (take (length kw) (ch # s) = kw \<or> contains kw s)"

definition quota_keywords :: "string list" where
  "quota_keywords =
     [''quota'', ''credit'', ''limit'', ''exceeded'',
      ''401'', ''403'', ''402'',
      ''unauthorized'', ''forbidden'', ''payment required'',
      ''no credits'', ''insufficient'', ''balance'']"

definition is_quota_error :: "string \<Rightarrow> bool" where
  "is_quota_error message = list_ex (\<lambda>keyword. contains keyword (lower message)) quota_keywords"

subsection \<open>State\<close>

text \<open>
  What the extension sends to its consumer through \<^verbatim>\<open>send_asr_error\<close>: the code, the
  message (the vendor's message forwarded, one of the fixed messages of the source, which
  are Chinese text, or the text of an exception) and whether vendor information comes
  with it (its code is \<open>Some n\<close> for \<^verbatim>\<open>str(n)\<close> and \<open>None\<close> for \<^verbatim>\<open>"unknown"\<close>). Of the
  informational log lines only those of the key rotation and of stopping are kept.
  \<open>connections\<close> records, in order, each call of the client's \<^verbatim>\<open>start\<close>, with
  the key that \<^verbatim>\<open>get_current_key\<close> gives at that moment, and of its \<^verbatim>\<open>stop\<close>.
\<close>

datatype error_text =
    Forwarded string
  | KeyMissingText
  | AllKeysTriedText
  | KeysExhaustedText key_error
  | ExceptionText py_exn

record vendor_info =
  vendor :: string
  vendor_code :: "int option"
  vendor_message :: string

datatype ext_event = SendAsrError error_code error_text "vendor_info option"

datatype connection_action = ClientStart string | ClientStop

record extension =
  config :: asr_config
  client :: "asr_client option"
  ext_timeline :: audio_timeline
  runtime_language :: "string option"
  send_audio_count :: int
  audio_dumper :: "byte list list option"
  ext_log :: "log_entry list"
  sent :: "ext_event list"
  connections :: "connection_action list"

definition ext_log_line :: "log_entry \<Rightarrow> extension \<Rightarrow> extension" where
  "ext_log_line l ext = ext\<lparr>ext_log := ext_log ext @ [l]\<rparr>"

definition send_asr_error :: "error_code \<Rightarrow> error_text \<Rightarrow> vendor_info option \<Rightarrow> extension \<Rightarrow> extension" where
  "send_asr_error c m v ext = ext\<lparr>sent := sent ext @ [SendAsrError c m v]\<rparr>"

definition ext_is_connected :: "extension \<Rightarrow> bool" where
  "ext_is_connected ext = (case client ext of None \<Rightarrow> False | Some cl \<Rightarrow> is_connected cl)"

subsection \<open>\<^verbatim>\<open>start_connection\<close> and \<^verbatim>\<open>stop_connection\<close>\<close>

text \<open>
  \<open>sdk_start k\<close> is the exception that the client's \<^verbatim>\<open>start\<close> raises when it is called
  with the key \<open>k\<close>, if it raises. \<^verbatim>\<open>start_connection\<close> catches it and reports it as a
  non-fatal error; it reports a blank key as a fatal error and does not start. Both
  functions catch every exception themselves, so none reaches their callers.
\<close>

definition start_connection :: "(string \<Rightarrow> py_exn option) \<Rightarrow> extension \<Rightarrow> extension" where
  "start_connection sdk_start ext =
     (let language_to_use =
            (case runtime_language ext of
               Some l \<Rightarrow> if l \<noteq> [] then l else language (config ext)
             | None \<Rightarrow> language (config ext));
          (current_key, cfg) = get_current_key ((config ext)\<lparr>language := language_to_use\<rparr>);
          ext1 = ext\<lparr>config := cfg\<rparr>
      in if current_key = [] \<or> strip current_key = [] then
           send_asr_error FATAL_ERROR KeyMissingText None (ext_log_line ErrorKeyMissing ext1)
         else
           (let cl = (case client ext1 of None \<Rightarrow> new_client (ext_timeline ext1) | Some cl \<Rightarrow> cl);
                ext2 = ext1\<lparr>client := Some cl,
                           connections := connections ext1 @ [ClientStart current_key]\<rparr>
            in case sdk_start current_key of
                 None \<Rightarrow> ext2\<lparr>client := Some (client_start cl)\<rparr>
               | Some e \<Rightarrow>
                   send_asr_error NON_FATAL_ERROR (ExceptionText e) None
                     (ext_log_line ErrorTraceback (ext_log_line (ErrorStartFailed e) ext2))))"

definition stop_connection :: "extension \<Rightarrow> extension" where
  "stop_connection ext =
     (case client ext of
        Some cl \<Rightarrow>
          ext_log_line InfoStopped
            ((ext_log_line InfoStopping ext)\<lparr>client := Some (client_stop cl),
               connections := connections ext @ [ClientStop]\<rparr>)
      | None \<Rightarrow> ext_log_line InfoStopped ext)"

subsection \<open>\<^verbatim>\<open>on_asr_error\<close> and the rotation of API keys\<close>

text \<open>
  In \<^verbatim>\<open>_rotate_api_key_and_reconnect\<close> the handler \<^verbatim>\<open>except ValueError\<close> takes what
  \<^verbatim>\<open>get_next_key\<close> raises. The last handler, \<^verbatim>\<open>except Exception\<close>, with its recursive call,
  is for an exception from stopping or starting the connection; \<^verbatim>\<open>stop_connection\<close> and
  \<^verbatim>\<open>start_connection\<close> let none escape, so it has no branch here.
\<close>

definition rotate_api_key_and_reconnect :: "(string \<Rightarrow> py_exn option) \<Rightarrow> extension \<Rightarrow> extension" where
  "rotate_api_key_and_reconnect sdk_start ext =
     (if \<not> has_multiple_keys (config ext) then ext_log_line ErrorNoSpareKey ext
      else if \<not> has_unattempted_keys (config ext) then
        send_asr_error FATAL_ERROR AllKeysTriedText None (ext_log_line ErrorAllKeysAttempted ext)
      else
        (let old_index = current_key_index (config ext)
         in case get_next_key (config ext) of
              (Inr next_key, cfg) \<Rightarrow>
                (let ext1 = ext_log_line (InfoKeySwitched (old_index + 1) (current_key_index cfg + 1))
                              (ext\<lparr>config := cfg\<rparr>);
                     ext2 = (if ext_is_connected ext1 then stop_connection ext1 else ext1)
                 in start_connection sdk_start ext2)
            | (Inl e, cfg) \<Rightarrow>
                send_asr_error FATAL_ERROR (KeysExhaustedText e) None
                  (ext_log_line ErrorAllKeysAttempted (ext\<lparr>config := cfg\<rparr>))))"

definition on_asr_error :: "(string \<Rightarrow> py_exn option) \<Rightarrow> extension \<Rightarrow> string \<Rightarrow> int option \<Rightarrow> extension" where
  "on_asr_error sdk_start ext message error_code =
     (let ext1 = ext_log_line (ErrorVendor message) ext;
          quota_error = is_quota_error message
      in if quota_error \<and> has_multiple_keys (config ext1) then
           rotate_api_key_and_reconnect sdk_start (ext_log_line WarnQuotaDetected ext1)
         else
           send_asr_error NON_FATAL_ERROR (Forwarded message)
             (Some \<lparr>vendor = ''speechmatics'',
                    vendor_code = (case error_code of
                                     None \<Rightarrow> None
                                   | Some n \<Rightarrow> if n \<noteq> 0 then Some n else None),
                    vendor_message = message\<rparr>) ext1)"

subsection \<open>\<^verbatim>\<open>send_audio\<close>\<close>


section \<open>Predicates of the statements\<close>

text \<open>
  The speaker that the sentence-final handler reads from an entry of \<open>results\<close> (that of
  its first alternative), the channel it reads, and whether a task is a result without a
  given metadata key.
\<close>

definition first_speaker :: "result_item \<Rightarrow> string" where
  "first_speaker x =
     (case x of NotADict \<Rightarrow> []
      | Dict r \<Rightarrow> (case alternatives r of [] \<Rightarrow> [] | a # _ \<Rightarrow> alt_speaker a))"

definition entry_channel :: "result_item \<Rightarrow> string" where
  "entry_channel x = (case x of NotADict \<Rightarrow> [] | Dict r \<Rightarrow> result_channel r)"

definition lacks_key :: "string \<Rightarrow> client_task \<Rightarrow> bool" where
  "lacks_key k t = (case t of OnAsrResult res \<Rightarrow> map_of (metadata res) k = None | _ \<Rightarrow> True)"

section \<open>Concrete configurations, clients and messages\<close>

definition three_keys :: asr_config where
  "three_keys = \<lparr>api_keys = [''k1'', ''k2'', ''k3''], key = [], current_key_index = 0,
     attempted_key_indices = [], language = ''en'', enable_word_final_mode = False,
     audio_gain = 7\<rparr>"

definition idle_client :: asr_client where
  "idle_client = new_client \<lparr>total_user_audio_duration = 0\<rparr>"






definition token :: "string \<Rightarrow> string \<Rightarrow> bool \<Rightarrow> real \<Rightarrow> real \<Rightarrow> result_item" where
  "token w ty eos start finish =
     Dict \<lparr>alternatives = [\<lparr>content = w, alt_speaker = []\<rparr>], start_time = start,
           end_time = finish, result_type = ty, result_channel = [], is_eos = eos\<rparr>"

definition hello_world_message :: provider_message where
  "hello_world_message =
     Msg \<lparr>msg_metadata = \<lparr>transcript = ''hello world. '', md_start_time = 0, md_end_time = 1\<rparr>,
          results = [token ''hello'' ''word'' False 0 (1/2),
                     token ''world'' ''word'' False (1/2) 1,
                     token ''.'' ''punctuation'' True 1 1]\<rparr>"

definition malformed_message :: provider_message where
  "malformed_message =
     Msg \<lparr>msg_metadata = \<lparr>transcript = ''hi '', md_start_time = 0, md_end_time = 1\<rparr>,
          results = [token ''hi'' ''word'' False 0 1, NotADict]\<rparr>"

definition word_final_config :: asr_config where
  "word_final_config = three_keys\<lparr>enable_word_final_mode := True\<rparr>"

definition transcript_message :: "string \<Rightarrow> result_item list \<Rightarrow> sm_message" where
  "transcript_message t rs =
     \<lparr>msg_metadata = \<lparr>transcript = t, md_start_time = 0, md_end_time = 1\<rparr>, results = rs\<rparr>"

definition plain_word :: asr_word where
  "plain_word = \<lparr>word = ''hi'', word_start_ms = 0, word_duration_ms = 100,
                 is_punctuation = False, speaker = [], channel = []\<rparr>"

section \<open>Properties of the credential rotation\<close>

lemma succeeded_simps [simp]: "succeeded (Inl e) = False" "succeeded (Inr k) = True"
  by (simp_all add: succeeded_def)

lemma find_unattempted_Some:
  assumes "find_unattempted c is = Some j" and "0 < length (api_keys c)"
  shows "j \<notin> set (attempted_key_indices c) \<and> 0 \<le> j \<and> j < int (length (api_keys c))"
  using assms
proof (induction "is")
  case Nil
  then show ?case by simp
next
  case (Cons i "is")
  then show ?case
    by (auto simp: Let_def split: if_splits)
qed

lemma mark_attempted_fields [simp]:
  "api_keys (mark_attempted c) = api_keys c"
  "current_key_index (mark_attempted c) = current_key_index c"
  "set (attempted_key_indices (mark_attempted c)) =
     insert (current_key_index c) (set (attempted_key_indices c))"
  by (auto simp: mark_attempted_def)

lemma get_next_key_api_keys [simp]: "api_keys (snd (get_next_key c)) = api_keys c"
  by (auto simp: get_next_key_def get_current_key_def Let_def split: option.splits)

lemma get_next_key_success:
  assumes "get_next_key c = (Inr k, c')" and "1 < length (api_keys c)"
  shows "current_key_index c' \<in> fresh_indices c
       \<and> set (attempted_key_indices c') = insert (current_key_index c) (set (attempted_key_indices c))
       \<and> k = api_keys c ! nat (current_key_index c')
       \<and> api_keys c' = api_keys c"
proof -
  from assms(2) have ne: "api_keys c \<noteq> []"
    by (cases "api_keys c") simp_all
  with assms obtain j where
    j: "find_unattempted (mark_attempted c) [0 ..< length (api_keys c)] = Some j"
    and c': "c' = (mark_attempted c)\<lparr>current_key_index := j\<rparr>"
    and k: "k = api_keys c ! nat j"
    by (auto simp: get_next_key_def Let_def split: option.splits)
  have "0 < length (api_keys (mark_attempted c))"
    using ne by simp
  from find_unattempted_Some [OF j this]
  have "j \<notin> insert (current_key_index c) (set (attempted_key_indices c))"
    and "0 \<le> j" and "j < int (length (api_keys c))"
    by simp_all
  with c' k show ?thesis
    by (simp add: fresh_indices_def)
qed

lemma get_next_key_failure:
  assumes "get_next_key c = (Inl e, c')" and "1 < length (api_keys c)"
  shows "c' = mark_attempted c"
proof -
  from assms(2) have "api_keys c \<noteq> []"
    by (cases "api_keys c") simp_all
  with assms show ?thesis
    by (auto simp: get_next_key_def Let_def split: option.splits)
qed

lemma fresh_indices_after_success:
  assumes "get_next_key c = (Inr k, c')" and "1 < length (api_keys c)"
  shows "fresh_indices c' = fresh_indices c - {current_key_index c'}"
  using get_next_key_success [OF assms]
  by (auto simp: fresh_indices_def)

lemma fresh_indices_after_failure:
  assumes "get_next_key c = (Inl e, c')" and "1 < length (api_keys c)"
  shows "fresh_indices c' = fresh_indices c"
  using get_next_key_failure [OF assms]
  by (auto simp: fresh_indices_def)

lemma finite_fresh_indices [simp]: "finite (fresh_indices c)"
  by (simp add: fresh_indices_def)

lemma card_fresh_indices_bound:
  assumes "0 \<le> current_key_index c" and "current_key_index c < int (length (api_keys c))"
  shows "card (fresh_indices c) \<le> length (api_keys c) - 1"
proof -
  have "fresh_indices c \<subseteq> {0 ..< int (length (api_keys c))} - {current_key_index c}"
    by (auto simp: fresh_indices_def)
  then have "card (fresh_indices c) \<le> card ({0 ..< int (length (api_keys c))} - {current_key_index c})"
    by (intro card_mono) auto
  also have "\<dots> = length (api_keys c) - 1"
    using assms by simp
  finally show ?thesis .
qed

lemma rotations_api_keys [simp]: "api_keys (snd (rotations n c)) = api_keys c"
proof (induction n arbitrary: c)
  case 0
  then show ?case by simp
next
  case (Suc n)
  have "api_keys (snd (rotations n (snd (get_next_key c)))) = api_keys c"
    by (simp add: Suc.IH)
  then show ?case
    by (simp split: prod.splits) (metis snd_conv)
qed

lemma rotations_successes_fresh:
  assumes "1 < length (api_keys c)"
  shows "length (filter succeeded (fst (rotations n c))) + card (fresh_indices (snd (rotations n c)))
           = card (fresh_indices c)"
  using assms
proof (induction n arbitrary: c)
  case 0
  then show ?case by simp
next
  case (Suc n)
  obtain r c1 where step: "get_next_key c = (r, c1)"
    by (cases "get_next_key c")
  obtain rs c2 where rest: "rotations n c1 = (rs, c2)"
    by (cases "rotations n c1")
  have keys1: "api_keys c1 = api_keys c"
    using get_next_key_api_keys [of c] step by simp
  with Suc.prems have "1 < length (api_keys c1)"
    by simp
  from Suc.IH [OF this] rest
  have IH: "length (filter succeeded rs) + card (fresh_indices c2) = card (fresh_indices c1)"
    by simp
  show ?case
  proof (cases r)
    case (Inl e)
    with step Suc.prems have "fresh_indices c1 = fresh_indices c"
      using fresh_indices_after_failure by blast
    with IH Inl step rest show ?thesis
      by simp
  next
    case (Inr k)
    with step Suc.prems have in_fresh: "current_key_index c1 \<in> fresh_indices c"
      and eq: "fresh_indices c1 = fresh_indices c - {current_key_index c1}"
      using get_next_key_success fresh_indices_after_success by blast+
    from in_fresh eq have "card (fresh_indices c) = Suc (card (fresh_indices c1))"
      by (metis card_Suc_Diff1 finite_fresh_indices)
    with IH Inr step rest show ?thesis
      by simp
  qed
qed

lemma length_rotations [simp]: "length (fst (rotations n c)) = n"
proof (induction n arbitrary: c)
  case 0
  then show ?case by simp
next
  case (Suc n)
  obtain r c1 where step: "get_next_key c = (r, c1)"
    by (cases "get_next_key c")
  obtain rs c2 where rest: "rotations n c1 = (rs, c2)"
    by (cases "rotations n c1")
  from Suc.IH [of c1] rest have "length rs = n"
    by simp
  with step rest show ?case
    by simp
qed

text \<open>
  C4. Take a configuration with \<open>N > 1\<close> API keys whose current index is one of them, and
  call \<^verbatim>\<open>get_next_key\<close> any number of times with no \<^verbatim>\<open>reset_key_rotation\<close> in between.
  Whenever a call returns a key, the index it moves to was not in the attempted list before
  the call, is not in it after the call, differs from the index just left, and the key
  returned is the one stored at that index. Among the results of any \<open>n\<close> calls at most
  \<open>N - 1\<close> are keys; every other call raises the all-keys-attempted \<^verbatim>\<open>ValueError\<close>, and it
  is raised at least once as soon as \<open>n \<ge> N\<close>.
\<close>

theorem get_next_key_unattempted_and_bounded:
  assumes "1 < length (api_keys c)"
    and "0 \<le> current_key_index c"
    and "current_key_index c < int (length (api_keys c))"
  shows "(\<forall>k c'. get_next_key (snd (rotations n c)) = (Inr k, c') \<longrightarrow>
            current_key_index c' \<notin> set (attempted_key_indices (snd (rotations n c)))
          \<and> current_key_index c' \<notin> set (attempted_key_indices c')
          \<and> current_key_index c' \<noteq> current_key_index (snd (rotations n c))
          \<and> 0 \<le> current_key_index c'
          \<and> current_key_index c' < int (length (api_keys c))
          \<and> k = api_keys c ! nat (current_key_index c'))
       \<and> length (filter succeeded (fst (rotations n c))) \<le> length (api_keys c) - 1
       \<and> (length (api_keys c) \<le> n \<longrightarrow> Inl AllKeysAttempted \<in> set (fst (rotations n c)))"
proof (intro conjI allI impI)
  fix k c'
  assume step: "get_next_key (snd (rotations n c)) = (Inr k, c')"
  let ?cn = "snd (rotations n c)"
  have keys: "1 < length (api_keys ?cn)"
    using assms(1) by simp
  from get_next_key_success [OF step keys]
  have fresh: "current_key_index c' \<in> fresh_indices ?cn"
    and att: "set (attempted_key_indices c') =
                insert (current_key_index ?cn) (set (attempted_key_indices ?cn))"
    and k: "k = api_keys ?cn ! nat (current_key_index c')"
    by simp_all
  from fresh show "current_key_index c' \<notin> set (attempted_key_indices ?cn)"
    by (simp add: fresh_indices_def)
  from fresh att show "current_key_index c' \<notin> set (attempted_key_indices c')"
    by (simp add: fresh_indices_def)
  from fresh show "current_key_index c' \<noteq> current_key_index ?cn"
    by (simp add: fresh_indices_def)
  from fresh show "0 \<le> current_key_index c'"
    by (simp add: fresh_indices_def)
  from fresh show "current_key_index c' < int (length (api_keys c))"
    by (simp add: fresh_indices_def)
  from k show "k = api_keys c ! nat (current_key_index c')"
    by simp
next
  have "length (filter succeeded (fst (rotations n c))) \<le> card (fresh_indices c)"
    using rotations_successes_fresh [OF assms(1), of n] by simp
  also have "\<dots> \<le> length (api_keys c) - 1"
    by (rule card_fresh_indices_bound [OF assms(2,3)])
  finally show bound: "length (filter succeeded (fst (rotations n c))) \<le> length (api_keys c) - 1" .
  assume enough: "length (api_keys c) \<le> n"
  show "Inl AllKeysAttempted \<in> set (fst (rotations n c))"
  proof (rule ccontr)
    assume none: "Inl AllKeysAttempted \<notin> set (fst (rotations n c))"
    have "\<forall>r \<in> set (fst (rotations n c)). succeeded r"
    proof
      fix r
      assume r: "r \<in> set (fst (rotations n c))"
      show "succeeded r"
      proof (cases r)
        case (Inl e)
        with r none show ?thesis
          by (cases e) simp
      next
        case (Inr k)
        then show ?thesis by simp
      qed
    qed
    then have "filter succeeded (fst (rotations n c)) = fst (rotations n c)"
      by simp
    with bound have "n \<le> length (api_keys c) - 1"
      by simp
    with enough assms(1) show False
      by simp
  qed
qed

theorem get_next_key_unattempted_and_bounded_witness:
  "1 < length (api_keys three_keys)
   \<and> 0 \<le> current_key_index three_keys
   \<and> current_key_index three_keys < int (length (api_keys three_keys))
   \<and> fst (rotations 4 three_keys)
        = [Inr ''k2'', Inr ''k3'', Inl AllKeysAttempted, Inl AllKeysAttempted]
   \<and> length (filter succeeded (fst (rotations 4 three_keys))) \<le> length (api_keys three_keys) - 1
   \<and> Inl AllKeysAttempted \<in> set (fst (rotations 4 three_keys))"
proof -
  have h1: "1 < length (api_keys three_keys)"
    and h2: "0 \<le> current_key_index three_keys"
    and h3: "current_key_index three_keys < int (length (api_keys three_keys))"
    by (simp_all add: three_keys_def)
  have run: "fst (rotations 4 three_keys)
        = [Inr ''k2'', Inr ''k3'', Inl AllKeysAttempted, Inl AllKeysAttempted]"
    by code_simp
  from get_next_key_unattempted_and_bounded [OF h1 h2 h3, of 4] h1 h2 h3 run
  show ?thesis
    by simp
qed

section \<open>Properties of the audio conditioning\<close>












lemma struct_unpack_odd:
  assumes "odd (length buf)"
  shows "struct_unpack (length buf div 2) buf = Inl StructError"
proof -
  from assms have "length buf \<noteq> 2 * (length buf div 2)"
    by presburger
  then show ?thesis
    by (simp add: struct_unpack_def)
qed

lemma recv_audio_frame_unpack_fails:
  assumes "odd (length frame_buf)" and "3 \<le> length frame_buf"
  shows "recv_audio_frame fmul cfg cl frame_buf sid
          = cl\<lparr>session_id := sid,
               client_log := client_log cl @ [ErrorSendAudioFrame StructError, ErrorTraceback],
               tasks := tasks cl @ [EmitError \<lparr>code = FATAL_ERROR, cause = StructError\<rparr>]\<rparr>"
proof -
  from assms have ne: "frame_buf \<noteq> []" and pos: "0 < length frame_buf div 2"
    by auto
  from assms have "struct_unpack (length frame_buf div 2) frame_buf = Inl StructError"
    by (simp add: struct_unpack_odd)
  with ne pos show ?thesis
    by (simp add: recv_audio_frame_def audio_frame_failed_def log_line_def create_task_def)
qed

text \<open>
  C6 (amended). An empty frame is not put on the queue: a warning is logged and nothing
  else changes, so no error is raised. A frame of one byte, which holds no complete sample,
  is put on the queue unchanged after a warning.
\<close>

theorem recv_audio_frame_odd_or_empty:
  "recv_audio_frame fmul cfg cl [] sid = cl\<lparr>client_log := client_log cl @ [WarnEmptyFrame]\<rparr>
   \<and> recv_audio_frame fmul cfg cl [b] sid
       = cl\<lparr>session_id := sid, client_log := client_log cl @ [WarnNoSamples 1],
            audio_queue := audio_queue cl @ [AudioBytes [b]]\<rparr>"
proof (intro conjI)
  show "recv_audio_frame fmul cfg cl [] sid = cl\<lparr>client_log := client_log cl @ [WarnEmptyFrame]\<rparr>"
    by (simp add: recv_audio_frame_def log_line_def)
next
  show "recv_audio_frame fmul cfg cl [b] sid
       = cl\<lparr>session_id := sid, client_log := client_log cl @ [WarnNoSamples 1],
            audio_queue := audio_queue cl @ [AudioBytes [b]]\<rparr>"
    by (simp add: recv_audio_frame_def log_line_def)
qed

theorem recv_audio_frame_odd_or_empty_witness:
  "audio_queue (recv_audio_frame exact_mul three_keys idle_client [5] None) = [AudioBytes [5]]
   \<and> client_log (recv_audio_frame exact_mul three_keys idle_client [5] None) = [WarnNoSamples 1]
   \<and> tasks (recv_audio_frame exact_mul three_keys idle_client [5] None) = []
   \<and> audio_queue (recv_audio_frame exact_mul three_keys idle_client [] None) = []
   \<and> client_log (recv_audio_frame exact_mul three_keys idle_client [] None) = [WarnEmptyFrame]
   \<and> tasks (recv_audio_frame exact_mul three_keys idle_client [] None) = []"
  using recv_audio_frame_odd_or_empty [of exact_mul three_keys idle_client None 5]
  by (simp add: idle_client_def new_client_def)

text \<open>
  C6 as stated fails for the three-byte frame \<open>[1, 2, 3]\<close>: its trailing byte is not passed
  through. \<^verbatim>\<open>struct.unpack\<close> raises, because the buffer is one byte longer than the format,
  nothing is put on the queue and the error is logged and reported.
\<close>

theorem recv_audio_frame_three_bytes_dropped:
  "audio_queue (recv_audio_frame exact_mul three_keys idle_client [1, 2, 3] None) = []
   \<and> tasks (recv_audio_frame exact_mul three_keys idle_client [1, 2, 3] None)
       = [EmitError \<lparr>code = FATAL_ERROR, cause = StructError\<rparr>]
   \<and> client_log (recv_audio_frame exact_mul three_keys idle_client [1, 2, 3] None)
       = [ErrorSendAudioFrame StructError, ErrorTraceback]"
  by (simp add: recv_audio_frame_def struct_unpack_def audio_frame_failed_def log_line_def
      create_task_def idle_client_def new_client_def)

section \<open>Properties of the extension\<close>





lemma stop_connection_fields [simp]:
  "config (stop_connection ext) = config ext"
  "sent (stop_connection ext) = sent ext"
  "ext_timeline (stop_connection ext) = ext_timeline ext"
  "runtime_language (stop_connection ext) = runtime_language ext"
  "connections (stop_connection ext)
     = connections ext @ (case client ext of None \<Rightarrow> [] | Some cl \<Rightarrow> [ClientStop])"
  by (simp_all add: stop_connection_def ext_log_line_def split: option.splits)





lemma ext_log_line_fields [simp]:
  "config (ext_log_line l ext) = config ext"
  "client (ext_log_line l ext) = client ext"
  "sent (ext_log_line l ext) = sent ext"
  "connections (ext_log_line l ext) = connections ext"
  "ext_is_connected (ext_log_line l ext) = ext_is_connected ext"
  by (simp_all add: ext_log_line_def ext_is_connected_def)












section \<open>Properties of the sentence-final handler\<close>

lemma log_line_fields [simp]:
  "cache_words (log_line l cl) = cache_words cl"
  "tasks (log_line l cl) = tasks cl"
  "audio_queue (log_line l cl) = audio_queue cl"
  "client_log (log_line l cl) = client_log cl @ [l]"
  by (simp_all add: log_line_def)

lemma create_task_fields [simp]:
  "cache_words (create_task t cl) = cache_words cl"
  "tasks (create_task t cl) = tasks cl @ [t]"
  "client_log (create_task t cl) = client_log cl"
  "timeline (create_task t cl) = timeline cl"
  "sent_user_audio_duration_ms_before_last_reset (create_task t cl)
     = sent_user_audio_duration_ms_before_last_reset cl"
  by (simp_all add: create_task_def)

text \<open>
  C1. In sentence-final mode, with an empty pending buffer, a message whose results are the
  word tokens \<open>hello\<close> and \<open>world\<close> and the punctuation token \<open>.\<close>, the last one flagged
  \<open>is_eos\<close>, creates exactly one task: a final result with the text \<open>hello world.\<close> and
  its three words. Afterwards the pending buffer is empty, so no non-final result follows.
  This holds whatever the times, speakers and channels of the tokens, the other
  alternatives, the configuration and the rest of the client's state are.
\<close>

theorem sentence_final_hello_world:
  "cache_words (handle_transcript_sentence_final_mode cfg (cl\<lparr>cache_words := []\<rparr>)
      (Msg \<lparr>msg_metadata = md, results =
         [Dict (ra\<lparr>alternatives := aa\<lparr>content := ''hello''\<rparr> # ma, result_type := ''word'', is_eos := False\<rparr>),
          Dict (rb\<lparr>alternatives := ab\<lparr>content := ''world''\<rparr> # mb, result_type := ''word'', is_eos := False\<rparr>),
          Dict (rc\<lparr>alternatives := ac\<lparr>content := ''.''\<rparr> # mc, result_type := ''punctuation'', is_eos := True\<rparr>)]\<rparr>)) = []
   \<and> (\<exists>r. tasks (handle_transcript_sentence_final_mode cfg (cl\<lparr>cache_words := []\<rparr>)
      (Msg \<lparr>msg_metadata = md, results =
         [Dict (ra\<lparr>alternatives := aa\<lparr>content := ''hello''\<rparr> # ma, result_type := ''word'', is_eos := False\<rparr>),
          Dict (rb\<lparr>alternatives := ab\<lparr>content := ''world''\<rparr> # mb, result_type := ''word'', is_eos := False\<rparr>),
          Dict (rc\<lparr>alternatives := ac\<lparr>content := ''.''\<rparr> # mc, result_type := ''punctuation'', is_eos := True\<rparr>)]\<rparr>))
        = tasks cl @ [OnAsrResult r]
      \<and> asr_text r = ''hello world.'' \<and> final r \<and> length (words r) = 3)"
  by (simp add: handle_transcript_sentence_final_mode_def cache_token_def flush_on_eos_def
      sentence_result_def convert_words_to_sentence_def get_words_def Let_def create_task_def)

theorem sentence_final_hello_world_witness:
  "cache_words (handle_transcript_sentence_final_mode three_keys idle_client hello_world_message) = []
   \<and> (\<exists>r. tasks (handle_transcript_sentence_final_mode three_keys idle_client hello_world_message)
             = [OnAsrResult r]
          \<and> asr_text r = ''hello world.'' \<and> final r \<and> length (words r) = 3)"
proof -
  let ?r1 = "\<lparr>alternatives = [], start_time = 0, end_time = 1/2, result_type = [],
              result_channel = [], is_eos = False\<rparr>"
  let ?r2 = "\<lparr>alternatives = [], start_time = 1/2, end_time = 1, result_type = [],
              result_channel = [], is_eos = False\<rparr>"
  let ?r3 = "\<lparr>alternatives = [], start_time = 1, end_time = 1, result_type = [],
              result_channel = [], is_eos = False\<rparr>"
  let ?a = "\<lparr>content = [], alt_speaker = []\<rparr>"
  from sentence_final_hello_world [where cfg = three_keys and cl = idle_client
      and md = "\<lparr>transcript = ''hello world. '', md_start_time = 0, md_end_time = 1\<rparr>"
      and ra = ?r1 and aa = ?a and ma = "[]" and rb = ?r2 and ab = ?a and mb = "[]"
      and rc = ?r3 and ac = ?a and mc = "[]"]
  show ?thesis
    by (simp add: hello_world_message_def token_def idle_client_def new_client_def)
qed

lemma sentence_failed_fields [simp]:
  "cache_words (sentence_failed e cl) = cache_words cl"
  "tasks (sentence_failed e cl) = tasks cl @ [EmitError \<lparr>code = FATAL_ERROR, cause = e\<rparr>]"
  "client_log (sentence_failed e cl) = client_log cl @ [ErrorHandleTranscript e]"
  by (simp_all add: sentence_failed_def)

lemma handle_results_append:
  assumes "NotADict \<notin> set pre"
  shows "handle_results cfg cl (pre @ rs) = handle_results cfg (snd (handle_results cfg cl pre)) rs
       \<and> fst (handle_results cfg cl pre) = None"
  using assms
proof (induction pre arbitrary: cl)
  case Nil
  then show ?case by simp
next
  case (Cons x pre)
  then show ?case
    by (cases x) simp_all
qed

text \<open>
  C7 (amended). When an entry of \<open>results\<close> is no dictionary, the sentence-final handler
  stops there, logs the failure and creates one task that reports it, with code
  \<^verbatim>\<open>FATAL_ERROR\<close>. The pending buffer is not restored: it is what the entries before the
  failing one left, with every token they appended and every flush they made, and the
  results they created stay created. A message that is no dictionary at all fails before
  anything is done, and then the buffer is as it was; the partial and word-final handlers
  never touch the buffer. The extension's error callback does not read the code: unless it
  takes the message for a quota error while several keys are configured, it sends the
  message on to its consumer with code \<^verbatim>\<open>NON_FATAL_ERROR\<close>.
\<close>

theorem sentence_final_failure_keeps_earlier_tokens:
  "(NotADict \<notin> set pre \<longrightarrow>
      handle_transcript_sentence_final_mode cfg cl (Msg \<lparr>msg_metadata = md, results = pre @ NotADict # post\<rparr>)
        = sentence_failed AttributeError (snd (handle_results cfg cl pre))
    \<and> cache_words (handle_transcript_sentence_final_mode cfg cl
          (Msg \<lparr>msg_metadata = md, results = pre @ NotADict # post\<rparr>))
        = cache_words (snd (handle_results cfg cl pre))
    \<and> tasks (handle_transcript_sentence_final_mode cfg cl
          (Msg \<lparr>msg_metadata = md, results = pre @ NotADict # post\<rparr>))
        = tasks (snd (handle_results cfg cl pre)) @ [EmitError \<lparr>code = FATAL_ERROR, cause = AttributeError\<rparr>])
   \<and> handle_transcript_sentence_final_mode cfg cl NotAMapping = sentence_failed AttributeError cl
   \<and> cache_words (handle_transcript_sentence_final_mode cfg cl NotAMapping) = cache_words cl
   \<and> cache_words (handle_partial_transcript cfg cl NotAMapping) = cache_words cl
   \<and> cache_words (handle_transcript_word_final_mode cfg cl NotAMapping) = cache_words cl
   \<and> tasks (handle_partial_transcript cfg cl NotAMapping)
       = tasks cl @ [EmitError \<lparr>code = FATAL_ERROR, cause = AttributeError\<rparr>]
   \<and> (\<not> is_quota_error message \<or> \<not> has_multiple_keys (config ext) \<longrightarrow>
        (\<exists>v. sent (on_asr_error sdk_start ext message ec)
               = sent ext @ [SendAsrError NON_FATAL_ERROR (Forwarded message) (Some v)]))"
proof (intro conjI impI)
  assume "\<not> is_quota_error message \<or> \<not> has_multiple_keys (config ext)"
  then show "\<exists>v. sent (on_asr_error sdk_start ext message ec)
               = sent ext @ [SendAsrError NON_FATAL_ERROR (Forwarded message) (Some v)]"
    by (auto simp: on_asr_error_def Let_def send_asr_error_def ext_log_line_def)
next
  assume pre: "NotADict \<notin> set pre"
  from handle_results_append [OF pre, of cfg cl "NotADict # post"]
  have run: "handle_results cfg cl (pre @ NotADict # post)
           = (Some AttributeError, snd (handle_results cfg cl pre))"
    by simp
  then show eq: "handle_transcript_sentence_final_mode cfg cl
          (Msg \<lparr>msg_metadata = md, results = pre @ NotADict # post\<rparr>)
        = sentence_failed AttributeError (snd (handle_results cfg cl pre))"
    by (simp add: handle_transcript_sentence_final_mode_def)
  show "cache_words (handle_transcript_sentence_final_mode cfg cl
          (Msg \<lparr>msg_metadata = md, results = pre @ NotADict # post\<rparr>))
        = cache_words (snd (handle_results cfg cl pre))"
    by (simp add: eq)
  show "tasks (handle_transcript_sentence_final_mode cfg cl
          (Msg \<lparr>msg_metadata = md, results = pre @ NotADict # post\<rparr>))
        = tasks (snd (handle_results cfg cl pre)) @ [EmitError \<lparr>code = FATAL_ERROR, cause = AttributeError\<rparr>]"
    by (simp add: eq)
qed (simp_all add: handle_transcript_sentence_final_mode_def handle_partial_transcript_def
      handle_transcript_word_final_mode_def transcript_failed_def)

text \<open>
  C7 as stated fails: for a message with the token \<open>hi\<close> followed by an entry that is no
  dictionary, the buffer was empty before and holds \<open>hi\<close> afterwards, and the error is
  reported with code \<^verbatim>\<open>FATAL_ERROR\<close>, not as a non-fatal one.
\<close>

theorem sentence_final_failure_mutates_buffer:
  "cache_words idle_client = []
   \<and> map word (cache_words (handle_transcript_sentence_final_mode three_keys idle_client malformed_message))
       = [''hi'']
   \<and> tasks (handle_transcript_sentence_final_mode three_keys idle_client malformed_message)
       = [EmitError \<lparr>code = FATAL_ERROR, cause = AttributeError\<rparr>]"
  by (simp add: malformed_message_def token_def idle_client_def new_client_def
      handle_transcript_sentence_final_mode_def cache_token_def flush_on_eos_def
      sentence_failed_def create_task_def log_line_def)

theorem sentence_final_failure_keeps_earlier_tokens_witness:
  "NotADict \<notin> set [token ''hi'' ''word'' False 0 1]
   \<and> map word (cache_words (handle_transcript_sentence_final_mode three_keys idle_client malformed_message))
       = map word (cache_words (snd (handle_results three_keys idle_client [token ''hi'' ''word'' False 0 1])))
   \<and> map word (cache_words (snd (handle_results three_keys idle_client [token ''hi'' ''word'' False 0 1])))
       = [''hi'']"
proof -
  have h: "NotADict \<notin> set [token ''hi'' ''word'' False 0 1]"
    by (simp add: token_def)
  have v: "map word (cache_words (snd (handle_results three_keys idle_client [token ''hi'' ''word'' False 0 1])))
       = [''hi'']"
    by (simp add: token_def cache_token_def flush_on_eos_def idle_client_def new_client_def)
  from sentence_final_failure_keeps_earlier_tokens
         [where pre = "[token ''hi'' ''word'' False 0 1]" and cfg = three_keys and cl = idle_client
            and md = "\<lparr>transcript = ''hi '', md_start_time = 0, md_end_time = 1\<rparr>"
            and post = "[]"] h v
  show ?thesis
    by (simp add: malformed_message_def)
qed

section \<open>Properties of word-final mode\<close>

lemma transcript_result_cong:
  assumes "timeline cl' = timeline cl"
    and "sent_user_audio_duration_ms_before_last_reset cl'
           = sent_user_audio_duration_ms_before_last_reset cl"
  shows "transcript_result cfg cl' msg fin = transcript_result cfg cl msg fin"
  using assms by (simp add: transcript_result_def actual_start_ms_def)

lemma dispatch_word_final:
  assumes "enable_word_final_mode cfg"
  shows "dispatch cfg cl (AddTranscript (Msg m))
       = (if transcript (msg_metadata m) = [] then cl
          else create_task (OnAsrResult (transcript_result cfg cl m True)) cl)"
  using assms by (simp add: dispatch_def handle_transcript_word_final_mode_def)

lemma word_final_fold:
  assumes "enable_word_final_mode cfg"
  shows "tasks (foldl (dispatch cfg) cl (map (\<lambda>m. AddTranscript (Msg m)) msgs))
           = tasks cl @ map (\<lambda>m. OnAsrResult (transcript_result cfg cl m True))
                          (filter (\<lambda>m. transcript (msg_metadata m) \<noteq> []) msgs)
       \<and> timeline (foldl (dispatch cfg) cl (map (\<lambda>m. AddTranscript (Msg m)) msgs)) = timeline cl
       \<and> sent_user_audio_duration_ms_before_last_reset
            (foldl (dispatch cfg) cl (map (\<lambda>m. AddTranscript (Msg m)) msgs))
           = sent_user_audio_duration_ms_before_last_reset cl
       \<and> cache_words (foldl (dispatch cfg) cl (map (\<lambda>m. AddTranscript (Msg m)) msgs)) = cache_words cl"
proof (induction msgs rule: rev_induct)
  case Nil
  then show ?case by simp
next
  case (snoc m msgs)
  let ?cl' = "foldl (dispatch cfg) cl (map (\<lambda>m. AddTranscript (Msg m)) msgs)"
  from snoc have same: "timeline ?cl' = timeline cl"
    "sent_user_audio_duration_ms_before_last_reset ?cl' = sent_user_audio_duration_ms_before_last_reset cl"
    by simp_all
  have "transcript_result cfg ?cl' m True = transcript_result cfg cl m True"
    by (rule transcript_result_cong [OF same])
  with snoc show ?case
    by (simp add: dispatch_word_final [OF assms])
qed

text \<open>
  C8 (amended). In word-final mode every \<^verbatim>\<open>AddTranscript\<close> message with a non-empty
  transcript creates exactly one final result, whose text is the transcript of the whole
  message, however many words it holds, and which carries no word-level detail; a message
  with an empty transcript creates none. The results are created in the order of the
  messages, and the pending buffer is not used.
\<close>

theorem word_final_one_result_per_message:
  assumes "enable_word_final_mode cfg"
  shows "tasks (foldl (dispatch cfg) cl (map (\<lambda>m. AddTranscript (Msg m)) msgs))
           = tasks cl @ map (\<lambda>m. OnAsrResult (transcript_result cfg cl m True))
                          (filter (\<lambda>m. transcript (msg_metadata m) \<noteq> []) msgs)
       \<and> asr_text (transcript_result cfg cl m True) = transcript (msg_metadata m)
       \<and> final (transcript_result cfg cl m True)
       \<and> words (transcript_result cfg cl m True) = []
       \<and> cache_words (foldl (dispatch cfg) cl (map (\<lambda>m. AddTranscript (Msg m)) msgs)) = cache_words cl"
  using word_final_fold [OF assms, of cl msgs]
  by (simp add: transcript_result_def Let_def)

theorem word_final_one_result_per_message_witness:
  "enable_word_final_mode word_final_config
   \<and> map (\<lambda>t. case t of OnAsrResult r \<Rightarrow> (asr_text r, final r) | _ \<Rightarrow> ([], False))
        (tasks (foldl (dispatch word_final_config) idle_client
           (map (\<lambda>m. AddTranscript (Msg m))
              [transcript_message ''hello'' [token ''hello'' ''word'' False 0 1],
               transcript_message [] [],
               transcript_message ''world'' [token ''world'' ''word'' False 0 1]])))
       = [(''hello'', True), (''world'', True)]"
proof -
  have h: "enable_word_final_mode word_final_config"
    by (simp add: word_final_config_def)
  have "tasks idle_client = []"
    by (simp add: idle_client_def new_client_def)
  with word_final_one_result_per_message [OF h, of idle_client
      "[transcript_message ''hello'' [token ''hello'' ''word'' False 0 1],
        transcript_message [] [],
        transcript_message ''world'' [token ''world'' ''word'' False 0 1]]"] h
  show ?thesis
    by (simp add: transcript_message_def transcript_result_def Let_def)
qed

text \<open>
  C8 as stated fails: a final message that holds the two words \<open>hello\<close> and \<open>world\<close> gives
  one final result with the text \<open>hello world\<close>, not one result per word.
\<close>

theorem word_final_two_words_one_result:
  "length (results (transcript_message ''hello world''
       [token ''hello'' ''word'' False 0 (1/2), token ''world'' ''word'' False (1/2) 1])) = 2
   \<and> tasks (dispatch word_final_config idle_client
        (AddTranscript (Msg (transcript_message ''hello world''
           [token ''hello'' ''word'' False 0 (1/2), token ''world'' ''word'' False (1/2) 1]))))
       = [OnAsrResult \<lparr>asr_text = ''hello world'', final = True, start_ms = 0, duration_ms = 1000,
            result_language = ''en'', words = [], metadata = [(''speaker'', ''NONE'')]\<rparr>]"
  by (simp add: dispatch_def word_final_config_def three_keys_def transcript_message_def token_def
      handle_transcript_word_final_mode_def transcript_result_def extract_speaker_def
      actual_start_ms_def get_audio_duration_before_time_def py_int_def idle_client_def
      new_client_def create_task_def Let_def)

section \<open>Properties of the sentence metadata\<close>

lemma map_of_dict_set: "map_of (dict_set k v d) k' = (if k' = k then Some v else map_of d k')"
  by (induction d) auto

lemma sentence_metadata_speaker:
  assumes "\<forall>w \<in> set ws. speaker w = []"
  shows "map_of (sentence_metadata d ws) ''speaker'' = map_of d ''speaker''"
  using assms
  by (induction ws arbitrary: d) (simp_all add: Let_def map_of_dict_set)

lemma sentence_metadata_channel:
  assumes "\<forall>w \<in> set ws. channel w = []"
  shows "map_of (sentence_metadata d ws) ''channel'' = map_of d ''channel''"
  using assms
  by (induction ws arbitrary: d) (simp_all add: Let_def map_of_dict_set)

lemma set_dict_set: "set (dict_set k v d) \<subseteq> insert (k, v) (set d)"
  by (induction d) auto

lemma sentence_metadata_values:
  "set (sentence_metadata d ws)
     \<subseteq> set d \<union> (\<lambda>w. (''speaker'', speaker w)) ` set ws
             \<union> (\<lambda>w. (''channel'', channel w)) ` set ws"
proof (induction ws arbitrary: d)
  case Nil
  then show ?case by simp
next
  case (Cons w ws)
  define d1 where "d1 = (if speaker w \<noteq> [] \<and> dict_get d ''speaker'' = []
             then dict_set ''speaker'' (speaker w) d else d)"
  define d2 where "d2 = (if channel w \<noteq> [] \<and> dict_get d1 ''channel'' = []
             then dict_set ''channel'' (channel w) d1 else d1)"
  have step: "sentence_metadata d (w # ws) = sentence_metadata d2 ws"
    by (simp add: d1_def d2_def Let_def)
  have "set d1 \<subseteq> insert (''speaker'', speaker w) (set d)"
    using set_dict_set [of "''speaker''" "speaker w" d] by (auto simp: d1_def)
  moreover have "set d2 \<subseteq> insert (''channel'', channel w) (set d1)"
    using set_dict_set [of "''channel''" "channel w" d1] by (auto simp: d2_def)
  ultimately have "set d2 \<subseteq> insert (''channel'', channel w) (insert (''speaker'', speaker w) (set d))"
    by blast
  with Cons.IH [of d2] have "set (sentence_metadata d2 ws)
     \<subseteq> set d \<union> (\<lambda>w. (''speaker'', speaker w)) ` set (w # ws)
             \<union> (\<lambda>w. (''channel'', channel w)) ` set (w # ws)"
    by (simp only: set_simps image_insert) blast
  with step show ?case
    by simp
qed

lemma sentence_result_no_speaker:
  assumes "\<forall>w \<in> set ws. speaker w = []"
  shows "map_of (metadata (sentence_result cfg fin ws)) ''speaker'' = None"
  using sentence_metadata_speaker [OF assms, of "[]"] by (simp add: sentence_result_def)

lemma sentence_result_no_channel:
  assumes "\<forall>w \<in> set ws. channel w = []"
  shows "map_of (metadata (sentence_result cfg fin ws)) ''channel'' = None"
  using sentence_metadata_channel [OF assms, of "[]"] by (simp add: sentence_result_def)

lemma lacks_key_simps [simp]:
  "lacks_key k (OnAsrResult res) = (map_of (metadata res) k = None)"
  "lacks_key k (EmitError err) = True"
  by (simp_all add: lacks_key_def)

lemma cache_token_tasks [simp]: "tasks (cache_token cl r) = tasks cl"
  by (cases "alternatives r") (simp_all add: cache_token_def Let_def)

lemma cache_token_speakers:
  assumes "list_all (\<lambda>w. speaker w = []) (cache_words cl)" and "first_speaker (Dict r) = []"
  shows "list_all (\<lambda>w. speaker w = []) (cache_words (cache_token cl r))"
  using assms by (cases "alternatives r") (simp_all add: cache_token_def Let_def first_speaker_def)

lemma cache_token_channels:
  assumes "list_all (\<lambda>w. channel w = []) (cache_words cl)" and "entry_channel (Dict r) = []"
  shows "list_all (\<lambda>w. channel w = []) (cache_words (cache_token cl r))"
  using assms by (cases "alternatives r") (simp_all add: cache_token_def Let_def entry_channel_def)

lemma flush_on_eos_fields:
  "cache_words (flush_on_eos cfg cl r) = (if is_eos r then [] else cache_words cl)"
  "tasks (flush_on_eos cfg cl r)
     = (if is_eos r then tasks cl @ [OnAsrResult (sentence_result cfg True (cache_words cl))]
        else tasks cl)"
  by (simp_all add: flush_on_eos_def create_task_def)

lemma sentence_result_no_speaker':
  assumes "list_all (\<lambda>w. speaker w = []) ws"
  shows "map_of (metadata (sentence_result cfg fin ws)) ''speaker'' = None"
  using assms by (intro sentence_result_no_speaker) (simp add: list_all_iff)

lemma sentence_result_no_channel':
  assumes "list_all (\<lambda>w. channel w = []) ws"
  shows "map_of (metadata (sentence_result cfg fin ws)) ''channel'' = None"
  using assms by (intro sentence_result_no_channel) (simp add: list_all_iff)

lemma handle_results_no_speaker:
  assumes "list_all (\<lambda>w. speaker w = []) (cache_words cl)"
    and "list_all (lacks_key ''speaker'') (tasks cl)"
    and "list_all (\<lambda>x. first_speaker x = []) rs"
  shows "list_all (\<lambda>w. speaker w = []) (cache_words (snd (handle_results cfg cl rs)))
       \<and> list_all (lacks_key ''speaker'') (tasks (snd (handle_results cfg cl rs)))"
  using assms
proof (induction rs arbitrary: cl)
  case Nil
  then show ?case by simp
next
  case (Cons x rs)
  show ?case
  proof (cases x)
    case NotADict
    with Cons.prems show ?thesis by simp
  next
    case (Dict r)
    let ?cl1 = "cache_token cl r"
    let ?cl2 = "flush_on_eos cfg ?cl1 r"
    from Cons.prems(3) Dict have r: "first_speaker (Dict r) = []"
      and rest: "list_all (\<lambda>x. first_speaker x = []) rs"
      by simp_all
    have w1: "list_all (\<lambda>w. speaker w = []) (cache_words ?cl1)"
      by (rule cache_token_speakers [OF Cons.prems(1) r])
    then have "map_of (metadata (sentence_result cfg True (cache_words ?cl1))) ''speaker'' = None"
      by (rule sentence_result_no_speaker')
    with Cons.prems(2) have t2: "list_all (lacks_key ''speaker'') (tasks ?cl2)"
      by (simp add: flush_on_eos_fields)
    from w1 have w2: "list_all (\<lambda>w. speaker w = []) (cache_words ?cl2)"
      by (simp add: flush_on_eos_fields)
    from Cons.IH [OF w2 t2 rest] Dict show ?thesis
      by simp
  qed
qed

lemma handle_results_no_channel:
  assumes "list_all (\<lambda>w. channel w = []) (cache_words cl)"
    and "list_all (lacks_key ''channel'') (tasks cl)"
    and "list_all (\<lambda>x. entry_channel x = []) rs"
  shows "list_all (\<lambda>w. channel w = []) (cache_words (snd (handle_results cfg cl rs)))
       \<and> list_all (lacks_key ''channel'') (tasks (snd (handle_results cfg cl rs)))"
  using assms
proof (induction rs arbitrary: cl)
  case Nil
  then show ?case by simp
next
  case (Cons x rs)
  show ?case
  proof (cases x)
    case NotADict
    with Cons.prems show ?thesis by simp
  next
    case (Dict r)
    let ?cl1 = "cache_token cl r"
    let ?cl2 = "flush_on_eos cfg ?cl1 r"
    from Cons.prems(3) Dict have r: "entry_channel (Dict r) = []"
      and rest: "list_all (\<lambda>x. entry_channel x = []) rs"
      by simp_all
    have w1: "list_all (\<lambda>w. channel w = []) (cache_words ?cl1)"
      by (rule cache_token_channels [OF Cons.prems(1) r])
    then have "map_of (metadata (sentence_result cfg True (cache_words ?cl1))) ''channel'' = None"
      by (rule sentence_result_no_channel')
    with Cons.prems(2) have t2: "list_all (lacks_key ''channel'') (tasks ?cl2)"
      by (simp add: flush_on_eos_fields)
    from w1 have w2: "list_all (\<lambda>w. channel w = []) (cache_words ?cl2)"
      by (simp add: flush_on_eos_fields)
    from Cons.IH [OF w2 t2 rest] Dict show ?thesis
      by simp
  qed
qed

lemma handler_tasks:
  "tasks (handle_transcript_sentence_final_mode cfg cl (Msg msg))
     = tasks (snd (handle_results cfg cl (results msg)))
       @ (case fst (handle_results cfg cl (results msg)) of
            Some e \<Rightarrow> [EmitError \<lparr>code = FATAL_ERROR, cause = e\<rparr>]
          | None \<Rightarrow>
              if cache_words (snd (handle_results cfg cl (results msg))) \<noteq> []
              then [OnAsrResult (sentence_result cfg False
                      (cache_words (snd (handle_results cfg cl (results msg)))))]
              else [])"
proof -
  obtain e cl1 where run: "handle_results cfg cl (results msg) = (e, cl1)"
    by (cases "handle_results cfg cl (results msg)")
  show ?thesis
  proof (cases e)
    case None
    with run show ?thesis
      by (simp add: handle_transcript_sentence_final_mode_def)
  next
    case (Some x)
    with run show ?thesis
      by (simp add: handle_transcript_sentence_final_mode_def)
  qed
qed

text \<open>
  C10. The metadata of an aggregated sentence has no \<open>speaker\<close> entry when none of its
  tokens has a non-empty speaker, and no \<open>channel\<close> entry when none has a non-empty
  channel; each entry it has is the speaker or the channel of one of its tokens, so the
  \<open>"NONE"\<close> of the other two handlers is never put in. For the handler: if no token of the
  buffer and no first alternative of the message has a speaker (no entry of the message a
  channel), then no result it creates has a \<open>speaker\<close> (a \<open>channel\<close>) entry, given that
  none of the earlier tasks had one. A partial or word-final result of a message without
  results does have the entry, with the value \<open>"NONE"\<close>.
\<close>

theorem sentence_final_metadata_omits_unset_labels:
  "(list_all (\<lambda>w. speaker w = []) ws \<longrightarrow>
      map_of (metadata (sentence_result cfg fin ws)) ''speaker'' = None)
   \<and> (list_all (\<lambda>w. channel w = []) ws \<longrightarrow>
      map_of (metadata (sentence_result cfg fin ws)) ''channel'' = None)
   \<and> set (metadata (sentence_result cfg fin ws))
       \<subseteq> (\<lambda>w. (''speaker'', speaker w)) ` set ws \<union> (\<lambda>w. (''channel'', channel w)) ` set ws
   \<and> (list_all (\<lambda>w. speaker w = []) (cache_words cl)
        \<and> list_all (lacks_key ''speaker'') (tasks cl)
        \<and> list_all (\<lambda>x. first_speaker x = []) (results msg) \<longrightarrow>
      list_all (lacks_key ''speaker'') (tasks (handle_transcript_sentence_final_mode cfg cl (Msg msg))))
   \<and> (list_all (\<lambda>w. channel w = []) (cache_words cl)
        \<and> list_all (lacks_key ''channel'') (tasks cl)
        \<and> list_all (\<lambda>x. entry_channel x = []) (results msg) \<longrightarrow>
      list_all (lacks_key ''channel'') (tasks (handle_transcript_sentence_final_mode cfg cl (Msg msg))))
   \<and> map_of (metadata (transcript_result cfg cl (msg\<lparr>results := []\<rparr>) fin)) ''speaker'' = Some ''NONE''"
proof (intro conjI impI)
  assume "list_all (\<lambda>w. speaker w = []) ws"
  then show "map_of (metadata (sentence_result cfg fin ws)) ''speaker'' = None"
    by (rule sentence_result_no_speaker')
next
  assume "list_all (\<lambda>w. channel w = []) ws"
  then show "map_of (metadata (sentence_result cfg fin ws)) ''channel'' = None"
    by (rule sentence_result_no_channel')
next
  show "set (metadata (sentence_result cfg fin ws))
       \<subseteq> (\<lambda>w. (''speaker'', speaker w)) ` set ws \<union> (\<lambda>w. (''channel'', channel w)) ` set ws"
    using sentence_metadata_values [of "[]" ws] by (simp add: sentence_result_def)
next
  assume A: "list_all (\<lambda>w. speaker w = []) (cache_words cl)
        \<and> list_all (lacks_key ''speaker'') (tasks cl)
        \<and> list_all (\<lambda>x. first_speaker x = []) (results msg)"
  let ?cl1 = "snd (handle_results cfg cl (results msg))"
  from A handle_results_no_speaker [of cl "results msg" cfg]
  have w: "list_all (\<lambda>w. speaker w = []) (cache_words ?cl1)"
    and t: "list_all (lacks_key ''speaker'') (tasks ?cl1)"
    by simp_all
  from w have "map_of (metadata (sentence_result cfg False (cache_words ?cl1))) ''speaker'' = None"
    by (rule sentence_result_no_speaker')
  with t show "list_all (lacks_key ''speaker'') (tasks (handle_transcript_sentence_final_mode cfg cl (Msg msg)))"
    by (simp add: handler_tasks split: option.splits)
next
  assume A: "list_all (\<lambda>w. channel w = []) (cache_words cl)
        \<and> list_all (lacks_key ''channel'') (tasks cl)
        \<and> list_all (\<lambda>x. entry_channel x = []) (results msg)"
  let ?cl1 = "snd (handle_results cfg cl (results msg))"
  from A handle_results_no_channel [of cl "results msg" cfg]
  have w: "list_all (\<lambda>w. channel w = []) (cache_words ?cl1)"
    and t: "list_all (lacks_key ''channel'') (tasks ?cl1)"
    by simp_all
  from w have "map_of (metadata (sentence_result cfg False (cache_words ?cl1))) ''channel'' = None"
    by (rule sentence_result_no_channel')
  with t show "list_all (lacks_key ''channel'') (tasks (handle_transcript_sentence_final_mode cfg cl (Msg msg)))"
    by (simp add: handler_tasks split: option.splits)
next
  show "map_of (metadata (transcript_result cfg cl (msg\<lparr>results := []\<rparr>) fin)) ''speaker'' = Some ''NONE''"
    by (simp add: transcript_result_def extract_speaker_def Let_def)
qed

theorem sentence_final_metadata_omits_unset_labels_witness:
  "list_all (\<lambda>w. speaker w = []) [plain_word]
   \<and> list_all (\<lambda>w. channel w = []) [plain_word]
   \<and> metadata (sentence_result three_keys True [plain_word]) = []
   \<and> metadata (sentence_result three_keys True [plain_word\<lparr>speaker := ''S2''\<rparr>]) = [(''speaker'', ''S2'')]
   \<and> map_of (metadata (sentence_result three_keys True [plain_word])) ''speaker'' = None
   \<and> map_of (metadata (sentence_result three_keys True [plain_word])) ''channel'' = None"
proof -
  have h: "list_all (\<lambda>w. speaker w = []) [plain_word] \<and> list_all (\<lambda>w. channel w = []) [plain_word]"
    by (simp add: plain_word_def)
  have v: "metadata (sentence_result three_keys True [plain_word]) = []"
    "metadata (sentence_result three_keys True [plain_word\<lparr>speaker := ''S2''\<rparr>]) = [(''speaker'', ''S2'')]"
    by (simp_all add: sentence_result_def plain_word_def dict_get_def)
  from sentence_final_metadata_omits_unset_labels [where ws = "[plain_word]" and cfg = three_keys and fin = True] h v
  show ?thesis
    by simp
qed

section \<open>Properties of the absolute start times\<close>






end
